theory Spec2Isabelle
  imports Main
begin

section \<open>The header RobotControl.h\<close>

text \<open>
  The repository fragment is one C header,
  \<^verbatim>\<open>MobileLighting_Mac/RobotControl/RobotControl/RobotControl.h\<close>, of 23 lines.
  It holds no function body, so there is nothing to embed as a HOL function computing
  a result. What the header does have is a content (comments, an include guard, two
  visibility pragmas, six function declarations) and a meaning for the C preprocessor
  and compiler that read it. The header is embedded line by line as a value of a line
  type, and the reading of a header (conditional inclusion, the stack of
  \<^verbatim>\<open>#pragma GCC visibility\<close>) as a step function on an explicit state.
\<close>

subsection \<open>C types and parameter lists\<close>

datatype ctype =
    TVoid
  | TChar
  | TInt
  | TFloat
  | TPtr ctype
  | TStruct string
  | TUnion string
  | TEnum string
  | TNamed string

text \<open>
  A function declarator's parameter part. \<^verbatim>\<open>f()\<close> is \<open>Unspecified\<close>: in C (before
  C23) it says nothing about the parameters. \<^verbatim>\<open>f(void)\<close> is \<open>NoParams\<close>, and
  \<^verbatim>\<open>f(char *)\<close> is \<open>Params [TPtr TChar]\<close>.
\<close>

datatype params =
    Unspecified
  | NoParams
  | Params "ctype list"

datatype visibility = Default | Hidden | Internal | Protected

subsection \<open>Lines of a header\<close>

datatype line =
    Comment string
  | Blank
  | IfNDef string
  | IfDef string
  | Define string
  | Undef string
  | EndIf
  | VisibilityPush visibility
  | VisibilityPop
  | FunDecl ctype string params
  | FunDef ctype string params string
  | VarDecl ctype string
  | TypeDef ctype string
  | TagDef ctype
  | Statement string

text \<open>The file, line 1 to line 23.\<close>

definition RobotControl_h :: "line list" where
  "RobotControl_h =
    [ Comment '''',
      Comment '' RobotControl.h'',
      Comment '' RobotControl'',
      Comment '' Guanghan Pan'',
      Comment '''',
      Comment '' Header file to export functions'',
      Comment '''',
      Blank,
      Blank,
      IfNDef ''RobotControl_'',
      Define ''RobotControl_'',
      Blank,
      VisibilityPush Default,
      Blank,
      FunDecl TInt ''Clinet'' Unspecified,
      FunDecl TInt ''SendCommand'' (Params [TPtr TChar]),
      FunDecl TInt ''GotoView'' (Params [TPtr TChar]),
      FunDecl TInt ''LoadPath'' (Params [TPtr TChar]),
      FunDecl TInt ''ExecutePath'' Unspecified,
      FunDecl TInt ''SetVelocity'' (Params [TFloat]),
      Blank,
      VisibilityPop,
      EndIf ]"

subsection \<open>What a header declares\<close>

text \<open>A declared function: return type, name, parameter part, and its body if it has one.\<close>

record fun_sig =
  ret :: ctype
  name :: string
  args :: params
  body :: "string option"

fun functions_of :: "line list \<Rightarrow> fun_sig list" where
  "functions_of [] = []"
| "functions_of (FunDecl t f ps # ls) =
     \<lparr>ret = t, name = f, args = ps, body = None\<rparr> # functions_of ls"
| "functions_of (FunDef t f ps b # ls) =
     \<lparr>ret = t, name = f, args = ps, body = Some b\<rparr> # functions_of ls"
| "functions_of (_ # ls) = functions_of ls"

fun lookup_fun :: "fun_sig list \<Rightarrow> string \<Rightarrow> fun_sig option" where
  "lookup_fun [] f = None"
| "lookup_fun (s # ss) f = (if name s = f then Some s else lookup_fun ss f)"

definition declared :: "string \<Rightarrow> fun_sig option" where
  "declared f = lookup_fun (functions_of RobotControl_h) f"

text \<open>Every type written in a declaration: the return type and the parameter types.\<close>

fun param_types :: "params \<Rightarrow> ctype list" where
  "param_types Unspecified = []"
| "param_types NoParams = []"
| "param_types (Params ts) = ts"

definition types_of :: "fun_sig \<Rightarrow> ctype list" where
  "types_of s = ret s # param_types (args s)"

fun compound :: "ctype \<Rightarrow> bool" where
  "compound (TStruct _) = True"
| "compound (TUnion _) = True"
| "compound (TEnum _) = True"
| "compound (TNamed _) = True"
| "compound (TPtr t) = compound t"
| "compound _ = False"

fun type_definition :: "line \<Rightarrow> bool" where
  "type_definition (TypeDef _ _) = True"
| "type_definition (TagDef _) = True"
| "type_definition _ = False"

text \<open>
  Whether a declarator's parameter part lets a call with \<open>n\<close> arguments through: an
  unspecified part checks nothing.
\<close>

fun admits_call :: "params \<Rightarrow> nat \<Rightarrow> bool" where
  "admits_call Unspecified n = True"
| "admits_call NoParams n = (n = 0)"
| "admits_call (Params ts) n = (n = length ts)"

text \<open>The kinds of line the header is said to consist of, and the kinds it is said to lack.\<close>

fun comment_or_blank :: "line \<Rightarrow> bool" where
  "comment_or_blank (Comment _) = True"
| "comment_or_blank Blank = True"
| "comment_or_blank _ = False"

fun guard_directive :: "line \<Rightarrow> bool" where
  "guard_directive (IfNDef _) = True"
| "guard_directive (Define _) = True"
| "guard_directive EndIf = True"
| "guard_directive _ = False"

fun visibility_pragma :: "line \<Rightarrow> bool" where
  "visibility_pragma (VisibilityPush _) = True"
| "visibility_pragma VisibilityPop = True"
| "visibility_pragma _ = False"

fun prototype :: "line \<Rightarrow> bool" where
  "prototype (FunDecl _ _ _) = True"
| "prototype _ = False"

fun has_content :: "line \<Rightarrow> bool" where
  "has_content (FunDef _ _ _ _) = True"
| "has_content (VarDecl _ _) = True"
| "has_content (TypeDef _ _) = True"
| "has_content (TagDef _) = True"
| "has_content (Statement _) = True"
| "has_content _ = False"

subsection \<open>Reading a header\<close>

text \<open>
  The state of the preprocessor and compiler while a translation unit is read:
  the macros defined so far, one flag for each open conditional (is its branch
  taken), the visibility given on the command line, the stack of
  \<^verbatim>\<open>#pragma GCC visibility push\<close>, and the declarations that came through, each with
  the visibility in force where it stands.
\<close>

record unit_state =
  macros :: "string set"
  conds :: "bool list"
  ambient :: visibility
  vstack :: "visibility list"
  emitted :: "(line \<times> visibility) list"

definition active :: "unit_state \<Rightarrow> bool" where
  "active st = list_all id (conds st)"

definition in_force :: "unit_state \<Rightarrow> visibility" where
  "in_force st = (case vstack st of [] \<Rightarrow> ambient st | v # _ \<Rightarrow> v)"

text \<open>
  One line. \<open>None\<close> is a diagnostic that stops the reading: an
  \<^verbatim>\<open>#endif\<close> with no open conditional, a visibility pop with no push.
  Inside a branch that is not taken, only the conditional directives are looked at.
\<close>

fun step :: "line \<Rightarrow> unit_state \<Rightarrow> unit_state option" where
  "step (IfNDef m) st = Some (st\<lparr>conds := (m \<notin> macros st) # conds st\<rparr>)"
| "step (IfDef m) st = Some (st\<lparr>conds := (m \<in> macros st) # conds st\<rparr>)"
| "step EndIf st =
     (case conds st of [] \<Rightarrow> None | _ # cs \<Rightarrow> Some (st\<lparr>conds := cs\<rparr>))"
| "step (Comment _) st = Some st"
| "step Blank st = Some st"
| "step (Define m) st =
     (if active st then Some (st\<lparr>macros := insert m (macros st)\<rparr>) else Some st)"
| "step (Undef m) st =
     (if active st then Some (st\<lparr>macros := macros st - {m}\<rparr>) else Some st)"
| "step (VisibilityPush v) st =
     (if active st then Some (st\<lparr>vstack := v # vstack st\<rparr>) else Some st)"
| "step VisibilityPop st =
     (if active st
      then (case vstack st of [] \<Rightarrow> None | _ # vs \<Rightarrow> Some (st\<lparr>vstack := vs\<rparr>))
      else Some st)"
| "step l st =
     (if active st then Some (st\<lparr>emitted := emitted st @ [(l, in_force st)]\<rparr>) else Some st)"

fun read_lines :: "line list \<Rightarrow> unit_state \<Rightarrow> unit_state option" where
  "read_lines [] st = Some st"
| "read_lines (l # ls) st =
     (case step l st of None \<Rightarrow> None | Some st' \<Rightarrow> read_lines ls st')"

text \<open>
  \<^verbatim>\<open>#include\<close> of a file: its lines are read in place; a conditional left open
  at the end of the file is a diagnostic.
\<close>

definition include_file :: "line list \<Rightarrow> unit_state \<Rightarrow> unit_state option" where
  "include_file ls st =
     (case read_lines ls st of
        None \<Rightarrow> None
      | Some st' \<Rightarrow> if length (conds st') = length (conds st) then Some st' else None)"

definition include_header :: "unit_state \<Rightarrow> unit_state option" where
  "include_header st = include_file RobotControl_h st"

fun include_times :: "nat \<Rightarrow> unit_state \<Rightarrow> unit_state option" where
  "include_times 0 st = Some st"
| "include_times (Suc n) st =
     (case include_header st of None \<Rightarrow> None | Some st' \<Rightarrow> include_times n st')"

text \<open>A translation unit that has read nothing yet, compiled with visibility \<open>amb\<close>.\<close>

definition start :: "visibility \<Rightarrow> unit_state" where
  "start amb = \<lparr>macros = {}, conds = [], ambient = amb, vstack = [], emitted = []\<rparr>"

text \<open>What an inclusion adds to the declarations of the unit.\<close>

definition added :: "unit_state \<Rightarrow> unit_state \<Rightarrow> (line \<times> visibility) list" where
  "added st st' = drop (length (emitted st)) (emitted st')"

definition the_declarations :: "line list" where
  "the_declarations =
    [ FunDecl TInt ''Clinet'' Unspecified,
      FunDecl TInt ''SendCommand'' (Params [TPtr TChar]),
      FunDecl TInt ''GotoView'' (Params [TPtr TChar]),
      FunDecl TInt ''LoadPath'' (Params [TPtr TChar]),
      FunDecl TInt ''ExecutePath'' Unspecified,
      FunDecl TInt ''SetVelocity'' (Params [TFloat]) ]"

text \<open>
  The depth of the visibility stack after the pragmas of a file, starting at depth
  \<open>d\<close>, whatever the conditionals: \<open>None\<close> when a pop finds no push of the file
  or of the including unit.
\<close>

fun pragma_depth :: "line list \<Rightarrow> nat \<Rightarrow> nat option" where
  "pragma_depth [] d = Some d"
| "pragma_depth (VisibilityPush _ # ls) d = pragma_depth ls (Suc d)"
| "pragma_depth (VisibilityPop # ls) d =
     (case d of 0 \<Rightarrow> None | Suc d' \<Rightarrow> pragma_depth ls d')"
| "pragma_depth (_ # ls) d = pragma_depth ls d"

section \<open>The header, evaluated\<close>

lemma functions_of_header:
  "functions_of RobotControl_h =
    [\<lparr>ret = TInt, name = ''Clinet'', args = Unspecified, body = None\<rparr>,
     \<lparr>ret = TInt, name = ''SendCommand'', args = Params [TPtr TChar], body = None\<rparr>,
     \<lparr>ret = TInt, name = ''GotoView'', args = Params [TPtr TChar], body = None\<rparr>,
     \<lparr>ret = TInt, name = ''LoadPath'', args = Params [TPtr TChar], body = None\<rparr>,
     \<lparr>ret = TInt, name = ''ExecutePath'', args = Unspecified, body = None\<rparr>,
     \<lparr>ret = TInt, name = ''SetVelocity'', args = Params [TFloat], body = None\<rparr>]"
  by (simp add: RobotControl_h_def)

lemma include_header_eq:
  "include_header st =
     Some (if active st \<and> ''RobotControl_'' \<notin> macros st
           then st\<lparr>macros := insert ''RobotControl_'' (macros st),
                   emitted := emitted st @ map (\<lambda>l. (l, Default)) the_declarations\<rparr>
           else st)"
  by (simp add: include_header_def include_file_def RobotControl_h_def the_declarations_def
      active_def in_force_def)

lemma include_header_again:
  assumes "include_header st = Some st'"
  shows "include_header st' = Some st'"
proof (cases "active st \<and> ''RobotControl_'' \<notin> macros st")
  case True
  with assms have "''RobotControl_'' \<in> macros st'"
    by (auto simp add: include_header_eq)
  then show ?thesis by (simp add: include_header_eq)
next
  case False
  with assms have "st' = st" by (auto simp add: include_header_eq)
  with assms show ?thesis by simp
qed

lemma include_times_Suc: "include_times (Suc n) st = include_header st"
proof (induction n arbitrary: st)
  case 0
  show ?case by (simp split: option.splits)
next
  case (Suc n)
  obtain st' where h: "include_header st = Some st'"
    by (simp add: include_header_eq)
  have "include_times (Suc (Suc n)) st = include_times (Suc n) st'"
    using h by simp
  also have "\<dots> = include_header st'" by (rule Suc.IH)
  also have "\<dots> = Some st'" using h by (rule include_header_again)
  finally show ?case using h by simp
qed

section \<open>The declared interface\<close>

text \<open>
  C1. The header declares exactly six functions, in this order: Clinet, SendCommand,
  GotoView, LoadPath, ExecutePath and SetVelocity. The six names are distinct, the first
  is spelled \<open>Clinet\<close>, and no function \<open>Client\<close> is declared. A translation unit
  that includes the header first gets these six function declarations from it and no
  other.
\<close>

theorem interface_is_six_functions:
  "map name (functions_of RobotControl_h) =
     [''Clinet'', ''SendCommand'', ''GotoView'', ''LoadPath'', ''ExecutePath'', ''SetVelocity'']
   \<and> length (functions_of RobotControl_h) = 6
   \<and> distinct (map name (functions_of RobotControl_h))
   \<and> declared ''Clinet'' \<noteq> None
   \<and> declared ''Client'' = None
   \<and> map_option (\<lambda>s. map name (functions_of (map fst (emitted s)))) (include_header (start amb)) =
       Some [''Clinet'', ''SendCommand'', ''GotoView'', ''LoadPath'', ''ExecutePath'',
             ''SetVelocity'']"
  by (simp add: functions_of_header declared_def include_header_eq start_def active_def
      the_declarations_def)

text \<open>
  C3. SendCommand, GotoView and LoadPath are each declared once, with exactly one
  parameter, of type \<open>char *\<close>.
\<close>

theorem string_functions_take_one_char_pointer:
  "map_option args (declared ''SendCommand'') = Some (Params [TPtr TChar])
   \<and> map_option args (declared ''GotoView'') = Some (Params [TPtr TChar])
   \<and> map_option args (declared ''LoadPath'') = Some (Params [TPtr TChar])
   \<and> length (filter (\<lambda>s. name s = ''SendCommand'') (functions_of RobotControl_h)) = 1
   \<and> length (filter (\<lambda>s. name s = ''GotoView'') (functions_of RobotControl_h)) = 1
   \<and> length (filter (\<lambda>s. name s = ''LoadPath'') (functions_of RobotControl_h)) = 1"
  by (simp add: declared_def functions_of_header)

text \<open>
  C4. SetVelocity is declared once, with exactly one parameter, of type \<open>float\<close>,
  and return type \<open>int\<close>.
\<close>

theorem set_velocity_signature:
  "declared ''SetVelocity'' =
     Some \<lparr>ret = TInt, name = ''SetVelocity'', args = Params [TFloat], body = None\<rparr>
   \<and> length (filter (\<lambda>s. name s = ''SetVelocity'') (functions_of RobotControl_h)) = 1"
  by (simp add: declared_def functions_of_header)

text \<open>
  C5. Clinet and ExecutePath are declared as \<open>int f()\<close>. The empty parentheses leave
  the parameters unspecified; they are not the declarator \<open>(void)\<close>. So the
  declarations let a call with any number \<open>n\<close> of arguments through, where \<open>(void)\<close>
  would refuse every call with an argument.
\<close>

theorem empty_parameter_lists_unspecified:
  "declared ''Clinet'' =
     Some \<lparr>ret = TInt, name = ''Clinet'', args = Unspecified, body = None\<rparr>
   \<and> declared ''ExecutePath'' =
     Some \<lparr>ret = TInt, name = ''ExecutePath'', args = Unspecified, body = None\<rparr>
   \<and> map_option args (declared ''Clinet'') \<noteq> Some NoParams
   \<and> map_option args (declared ''ExecutePath'') \<noteq> Some NoParams
   \<and> map_option (\<lambda>s. admits_call (args s) n) (declared ''Clinet'') = Some True
   \<and> map_option (\<lambda>s. admits_call (args s) n) (declared ''ExecutePath'') = Some True
   \<and> \<not> admits_call NoParams (Suc n)"
  by (simp add: declared_def functions_of_header)

text \<open>
  C6. Every parameter type of the six declarations is \<open>float\<close> or \<open>char *\<close>. No
  struct, union, enum or typedef name occurs in a return or parameter type, and the
  file has no line that defines a type.
\<close>

theorem only_primitive_types:
  "list_all (\<lambda>s. list_all (\<lambda>t. t = TFloat \<or> t = TPtr TChar) (param_types (args s)))
     (functions_of RobotControl_h)
   \<and> \<not> list_ex compound (concat (map types_of (functions_of RobotControl_h)))
   \<and> filter type_definition RobotControl_h = []"
proof -
  have "filter type_definition RobotControl_h = []"
    by (simp add: RobotControl_h_def)
  then show ?thesis
    by (simp add: functions_of_header types_of_def)
qed

text \<open>
  C8. Apart from comments, blank lines and the three lines of the include guard, the
  file consists of the visibility push, the six function declarations and the visibility
  pop. It has no function definition, variable, type definition or statement, and no
  declared function has a body.
\<close>

theorem header_has_only_prototypes_and_pragmas:
  "filter (\<lambda>l. \<not> comment_or_blank l \<and> \<not> guard_directive l) RobotControl_h =
     VisibilityPush Default # the_declarations @ [VisibilityPop]
   \<and> list_all prototype the_declarations
   \<and> filter has_content RobotControl_h = []
   \<and> map body (functions_of RobotControl_h) = replicate 6 None"
proof -
  have "filter (\<lambda>l. \<not> comment_or_blank l \<and> \<not> guard_directive l) RobotControl_h =
     VisibilityPush Default # the_declarations @ [VisibilityPop]"
    by (simp add: RobotControl_h_def the_declarations_def)
  moreover have "list_all prototype the_declarations"
    by (simp add: the_declarations_def)
  moreover have "filter has_content RobotControl_h = []"
    by (simp add: RobotControl_h_def)
  moreover have "map body (functions_of RobotControl_h) = replicate 6 None"
    by (simp add: functions_of_header numeral_eq_Suc)
  ultimately show ?thesis by simp
qed

section \<open>Visibility and the include guard\<close>

text \<open>
  C7. All six declarations stand between \<open>#pragma GCC visibility push(default)\<close> and
  \<open>#pragma GCC visibility pop\<close>: whatever visibility is in force where the header is
  included (command line or an enclosing push), a unit that reads the body of the header
  gets the six declarations, each with default visibility.
\<close>

theorem declarations_have_default_visibility:
  assumes "active st" and "''RobotControl_'' \<notin> macros st"
  shows "map_option (added st) (include_header st) =
           Some (map (\<lambda>l. (l, Default)) the_declarations)"
  using assms by (simp add: include_header_eq added_def)

theorem declarations_have_default_visibility_witness:
  "active (start Hidden) \<and> ''RobotControl_'' \<notin> macros (start Hidden)
   \<and> map_option (added (start Hidden)) (include_header (start Hidden)) =
       Some [(FunDecl TInt ''Clinet'' Unspecified, Default),
             (FunDecl TInt ''SendCommand'' (Params [TPtr TChar]), Default),
             (FunDecl TInt ''GotoView'' (Params [TPtr TChar]), Default),
             (FunDecl TInt ''LoadPath'' (Params [TPtr TChar]), Default),
             (FunDecl TInt ''ExecutePath'' Unspecified, Default),
             (FunDecl TInt ''SetVelocity'' (Params [TFloat]), Default)]"
  using declarations_have_default_visibility [of "start Hidden"]
  by (simp add: start_def active_def the_declarations_def)

text \<open>
  C9. Including the header \<open>n\<close> times, for \<open>n\<close> at least two, leaves a translation
  unit in the same state as including it once, from every state of the unit: same
  declarations, same macros, same visibility stack.
\<close>

theorem include_guard_idempotent:
  assumes "2 \<le> n"
  shows "include_times n st = include_times 1 st"
proof -
  from assms obtain k where "n = Suc k" by (cases n) auto
  then show ?thesis by (simp only: include_times_Suc One_nat_def)
qed

theorem include_guard_idempotent_witness:
  "(2::nat) \<le> 3
   \<and> include_times 3 (start Hidden) = include_times 1 (start Hidden)
   \<and> map_option (map fst \<circ> emitted) (include_times 3 (start Hidden)) = Some the_declarations"
  using include_guard_idempotent [of 3 "start Hidden"]
  by (simp add: include_times_Suc include_header_eq start_def active_def the_declarations_def)

text \<open>
  C10. Including the header leaves the visibility setting as it found it, from every state
  of the unit: the inclusion succeeds, and the visibility stack, the command-line
  visibility and the visibility in force are those from before. The file has one
  visibility push followed by one pop, and its pragmas bring every depth \<open>d\<close> of the
  stack back to \<open>d\<close>.
\<close>

theorem visibility_stack_restored:
  "map_option vstack (include_header st) = Some (vstack st)
   \<and> map_option ambient (include_header st) = Some (ambient st)
   \<and> map_option in_force (include_header st) = Some (in_force st)
   \<and> filter visibility_pragma RobotControl_h = [VisibilityPush Default, VisibilityPop]
   \<and> pragma_depth RobotControl_h d = Some d"
proof -
  have "filter visibility_pragma RobotControl_h = [VisibilityPush Default, VisibilityPop]"
    by (simp add: RobotControl_h_def)
  moreover have "pragma_depth RobotControl_h d = Some d"
    by (simp add: RobotControl_h_def)
  ultimately show ?thesis
    by (simp add: include_header_eq in_force_def split: list.splits)
qed

end
